theory Spec2Isabelle
  imports Complex_Main "HOL-Library.Sublist"
begin

section \<open>Values, errors and the numpy operations the module calls\<close>

text \<open>
  The module \<^verbatim>\<open>crossCalib.py\<close> works on obspy traces and numpy arrays. Arrays are
  lists; frequencies and samples are reals and spectra are complex numbers, so the
  arithmetic of the model is exact where numpy's is IEEE double precision. Comparisons,
  \<^verbatim>\<open>abs\<close>, \<^verbatim>\<open>argmin\<close>, \<^verbatim>\<open>argmax\<close>, filtering and deletion are exact in numpy too.
  A Python exception is a value \<open>Inl e\<close>; what is printed is a list of lines.
\<close>

datatype error = ValueError | IndexError | ZeroDivisionError | ExternalError

definition ebind :: "error + 'a \<Rightarrow> ('a \<Rightarrow> error + 'b) \<Rightarrow> error + 'b" where
  "ebind m k = (case m of Inl e \<Rightarrow> Inl e | Inr v \<Rightarrow> k v)"

text \<open>Index of the first element satisfying a predicate (the list length if none does).\<close>

fun first_index :: "('a \<Rightarrow> bool) \<Rightarrow> 'a list \<Rightarrow> nat" where
  "first_index P [] = 0"
| "first_index P (x # xs) = (if P x then 0 else Suc (first_index P xs))"

text \<open>
  \<^verbatim>\<open>np.amax\<close>, \<^verbatim>\<open>np.argmax\<close> and \<^verbatim>\<open>np.argmin\<close> raise ValueError on an empty array;
  the two index functions return the first occurrence of the extreme value.
\<close>

definition amax :: "real list \<Rightarrow> error + real" where
  "amax xs = (if xs = [] then Inl ValueError else Inr (Max (set xs)))"

definition argmax :: "real list \<Rightarrow> error + nat" where
  "argmax xs = (if xs = [] then Inl ValueError
                else Inr (first_index (\<lambda>x. x = Max (set xs)) xs))"

definition argmin :: "real list \<Rightarrow> error + nat" where
  "argmin xs = (if xs = [] then Inl ValueError
                else Inr (first_index (\<lambda>x. x = Min (set xs)) xs))"

text \<open>\<^verbatim>\<open>np.where(cond)\<close> on a one-dimensional array: the indices where the condition holds.\<close>

definition where_idx :: "('a \<Rightarrow> bool) \<Rightarrow> 'a list \<Rightarrow> nat list" where
  "where_idx P xs = filter (\<lambda>i. P (xs ! i)) [0..<length xs]"

text \<open>\<^verbatim>\<open>a[idx]\<close> with an index array: IndexError when an index is out of bounds.\<close>

definition pick :: "'a list \<Rightarrow> nat list \<Rightarrow> error + 'a list" where
  "pick xs idx = (if list_all (\<lambda>i. i < length xs) idx then Inr (map (\<lambda>i. xs ! i) idx)
                  else Inl IndexError)"

text \<open>\<^verbatim>\<open>np.delete(a, i)\<close>: the array without position \<open>i\<close>; IndexError when out of bounds.\<close>

definition delete :: "'a list \<Rightarrow> nat \<Rightarrow> error + 'a list" where
  "delete xs i = (if i < length xs then Inr (take i xs @ drop (Suc i) xs) else Inl IndexError)"

text \<open>
  \<^verbatim>\<open>a / b\<close> on one-dimensional arrays: elementwise when the lengths agree; an array
  of length one is broadcast against the other; any other pair of lengths raises
  ValueError.
\<close>

definition np_divide :: "complex list \<Rightarrow> complex list \<Rightarrow> error + complex list" where
  "np_divide a b =
     (if length a = length b then Inr (map2 (\<lambda>x y. x / y) a b)
      else if length b = 1 then Inr (map (\<lambda>x. x / b ! 0) a)
      else if length a = 1 then Inr (map (\<lambda>y. a ! 0 / y) b)
      else Inl ValueError)"

text \<open>
  \<^verbatim>\<open>np.fft.fft\<close>: the discrete Fourier transform
  \<open>A\<^sub>k = \<Sum>\<^sub>m a\<^sub>m exp (-2\<pi>i m k / n)\<close>, ValueError on an empty array.
\<close>

definition np_fft :: "real list \<Rightarrow> error + complex list" where
  "np_fft a =
     (if a = [] then Inl ValueError
      else Inr (map (\<lambda>k. \<Sum>m\<leftarrow>[0..<length a].
                  complex_of_real (a ! m) * cis (- (2 * pi * real m * real k / real (length a))))
                [0..<length a]))"

text \<open>
  \<^verbatim>\<open>np.fft.fftfreq(n, d)\<close>: \<^verbatim>\<open>val = 1.0/(n*d)\<close>; the integers \<open>0 .. (n-1) div 2\<close>
  followed by \<open>-(n div 2) .. -1\<close>, each times \<^verbatim>\<open>val\<close>.
\<close>

definition fftfreq :: "nat \<Rightarrow> real \<Rightarrow> error + real list" where
  "fftfreq n d =
     (if real n * d = 0 then Inl ZeroDivisionError
      else Inr (map (\<lambda>k. real_of_int k * (1 / (real n * d)))
                 (map int [0..<(n - 1) div 2 + 1] @
                  map (\<lambda>j. int j - int (n div 2)) [0..<n div 2])))"

section \<open>Traces, options and the external capabilities\<close>

text \<open>
  Of an obspy trace the module reads \<^verbatim>\<open>data\<close> and \<^verbatim>\<open>stats.sampling_rate\<close>. The keyword
  options of the three functions are one record, a field being \<open>None\<close> when the key is
  absent. \<^verbatim>\<open>Trace.filter\<close>, \<^verbatim>\<open>Trace.simulate\<close> and \<^verbatim>\<open>obspy.signal.util.smooth\<close>
  belong to obspy: they are parameters of the model and may raise.
\<close>

record trace =
  data :: "real list"
  sampling_rate :: real

record 'p kwargs =
  smooth :: "int option"
  ffilter :: "real option"
  deconvolve :: "bool option"
  paz :: "'p option"
  fnorm :: "real option"
  fmin :: "real option"
  plotting :: "bool option"

definition no_kwargs :: "'p kwargs" where
  "no_kwargs = \<lparr>smooth = None, ffilter = None, deconvolve = None, paz = None,
                fnorm = None, fmin = None, plotting = None\<rparr>"

record 'p env =
  highpass :: "real \<Rightarrow> trace \<Rightarrow> error + trace"
  simulate :: "'p \<Rightarrow> trace \<Rightarrow> error + trace"
  smoother :: "complex list \<Rightarrow> int \<Rightarrow> error + complex list"

section \<open>whiteCalib\<close>

definition mixing_warning :: string where
  "mixing_warning = ''Warning: frequencies arrays does'' @ [CHR 0x27] @
     ''nt have same length or frequencies arrays not strictly identical, mixing''"

text \<open>
  Lines 60--73: when one filtered axis is longer than the other, the longer one loses
  its maximum and then the minimum of what is left, its spectrum the same positions.
\<close>

definition trim_pair :: "real list \<Rightarrow> 'c list \<Rightarrow> error + (real list \<times> 'c list)" where
  "trim_pair f S =
     ebind (argmax f) (\<lambda>i.
     ebind (delete f i) (\<lambda>f'.
     ebind (delete S i) (\<lambda>S'.
     ebind (argmin f') (\<lambda>j.
     ebind (delete f' j) (\<lambda>f''.
     ebind (delete S' j) (\<lambda>S''.
     Inr (f'', S'')))))))"

definition trim :: "real list \<Rightarrow> 'c list \<Rightarrow> real list \<Rightarrow> 'c list \<Rightarrow>
    error + (real list \<times> 'c list \<times> real list \<times> 'c list)" where
  "trim f1 mSpectre f2 rSpectre =
     (if length f1 > length f2 then
        ebind (trim_pair f1 mSpectre) (\<lambda>(f1', mSpectre'). Inr (f1', mSpectre', f2, rSpectre))
      else if length f2 > length f1 then
        ebind (trim_pair f2 rSpectre) (\<lambda>(f2', rSpectre'). Inr (f1, mSpectre, f2', rSpectre'))
      else Inr (f1, mSpectre, f2, rSpectre))"

text \<open>
  Lines 50--73, the frequency aligner. The result is what is printed and the four arrays
  \<open>(f1, mSpectre, f2, rSpectre)\<close> as they stand before the division.
\<close>

definition align :: "real list \<Rightarrow> 'c list \<Rightarrow> real list \<Rightarrow> 'c list \<Rightarrow>
    string list \<times> (error + (real list \<times> 'c list \<times> real list \<times> 'c list))" where
  "align f1 mSpectre f2 rSpectre =
     (if length f1 \<noteq> length f2 \<or> sum_list (map2 (\<lambda>x y. x - y) f1 f2) \<noteq> 0 then
        ([mixing_warning],
         ebind (amax (map abs f1)) (\<lambda>a1.
         ebind (amax (map abs f2)) (\<lambda>a2.
         let fmax = min a1 a2;
             i1 = where_idx (\<lambda>x. \<bar>x\<bar> < fmax) f1 in
         ebind (pick f1 i1) (\<lambda>f1'.
         ebind (pick mSpectre i1) (\<lambda>mSpectre'.
         let i2 = where_idx (\<lambda>x. \<bar>x\<bar> < fmax) f2 in
         ebind (pick f2 i2) (\<lambda>f2'.
         ebind (pick rSpectre i2) (\<lambda>rSpectre'.
         trim f1' mSpectre' f2' rSpectre')))))))
      else ([], Inr (f1, mSpectre, f2, rSpectre)))"

text \<open>
  Lines 43--48: the two spectra and their frequency axes. \<^verbatim>\<open>1./sampling_rate\<close> is a
  Python float division and raises ZeroDivisionError on a zero rate.
\<close>

definition spacing :: "trace \<Rightarrow> error + real" where
  "spacing t = (if sampling_rate t = 0 then Inl ZeroDivisionError else Inr (1 / sampling_rate t))"

definition spectra :: "trace \<Rightarrow> trace \<Rightarrow>
    error + (real list \<times> complex list \<times> real list \<times> complex list)" where
  "spectra m_trace r_trace =
     ebind (np_fft (data m_trace)) (\<lambda>mSpectre.
     ebind (np_fft (data r_trace)) (\<lambda>rSpectre.
     ebind (spacing m_trace) (\<lambda>d1.
     ebind (fftfreq (length mSpectre) d1) (\<lambda>f1.
     ebind (spacing r_trace) (\<lambda>d2.
     ebind (fftfreq (length rSpectre) d2) (\<lambda>f2.
     Inr (f1, mSpectre, f2, rSpectre)))))))"

text \<open>Lines 43--76: the transfer function before smoothing, with the axis that is returned.\<close>

definition whiteCalib_raw :: "trace \<Rightarrow> trace \<Rightarrow> string list \<times> (error + (complex list \<times> real list))" where
  "whiteCalib_raw m_trace r_trace =
     (case spectra m_trace r_trace of
        Inl e \<Rightarrow> ([], Inl e)
      | Inr (f1, mSpectre, f2, rSpectre) \<Rightarrow>
          (case align f1 mSpectre f2 rSpectre of
             (out, Inl e) \<Rightarrow> (out, Inl e)
           | (out, Inr (f1', mSpectre', f2', rSpectre')) \<Rightarrow>
               (out, ebind (np_divide rSpectre' mSpectre') (\<lambda>H. Inr (H, f1')))))"

text \<open>
  Lines 43--83 on the two copies: the smoothing window is the option \<^verbatim>\<open>smooth\<close>, or
  \<^verbatim>\<open>int(len(f1)*0.0001)\<close>, which is \<open>len(f1) div 10000\<close>.
\<close>

definition whiteCalib_body :: "'p env \<Rightarrow> 'q kwargs \<Rightarrow> trace \<Rightarrow> trace \<Rightarrow>
    string list \<times> (error + (complex list \<times> real list))" where
  "whiteCalib_body E kw m_trace r_trace =
     (case whiteCalib_raw m_trace r_trace of
        (out, Inl e) \<Rightarrow> (out, Inl e)
      | (out, Inr (H, f1)) \<Rightarrow>
          (out, ebind (smoother E H (case smooth kw of Some n \<Rightarrow> n
                                      | None \<Rightarrow> int (length f1 div 10000)))
                  (\<lambda>H'. Inr (H', f1))))"

section \<open>Trace objects and the three functions\<close>

text \<open>
  The caller's traces are objects: \<^verbatim>\<open>Trace.filter\<close> and \<^verbatim>\<open>Trace.simulate\<close> change the
  object they are called on. The store is the list of the trace objects, a reference
  is a position in it, and \<^verbatim>\<open>Trace.copy\<close> allocates a new object at the end. A
  function takes the state and returns the state it leaves, also when it raises.
\<close>

record state =
  heap :: "trace list"
  stdout :: "string list"

type_synonym 'a prog = "state \<Rightarrow> state \<times> (error + 'a)"

definition sreturn :: "'a \<Rightarrow> 'a prog" where
  "sreturn v = (\<lambda>s. (s, Inr v))"

definition sbind :: "'a prog \<Rightarrow> ('a \<Rightarrow> 'b prog) \<Rightarrow> 'b prog" where
  "sbind m k = (\<lambda>s. case m s of (s', Inl e) \<Rightarrow> (s', Inl e) | (s', Inr v) \<Rightarrow> k v s')"

definition copy :: "nat \<Rightarrow> nat prog" where
  "copy r = (\<lambda>s. (s\<lparr>heap := heap s @ [heap s ! r]\<rparr>, Inr (length (heap s))))"

definition inplace :: "(trace \<Rightarrow> error + trace) \<Rightarrow> nat \<Rightarrow> unit prog" where
  "inplace f r = (\<lambda>s. case f (heap s ! r) of
                        Inl e \<Rightarrow> (s, Inl e)
                      | Inr t \<Rightarrow> (s\<lparr>heap := (heap s)[r := t]\<rparr>, Inr ()))"

definition print :: "string \<Rightarrow> unit prog" where
  "print line = (\<lambda>s. (s\<lparr>stdout := stdout s @ [line]\<rparr>, Inr ()))"

text \<open>\<^verbatim>\<open>whiteCalib\<close>, lines 37--83: the two copies, then the computation on them.\<close>

definition whiteCalib :: "'p env \<Rightarrow> 'p kwargs \<Rightarrow> nat \<Rightarrow> nat \<Rightarrow> (complex list \<times> real list) prog" where
  "whiteCalib E kw monitor_trace response_trace =
     sbind (copy monitor_trace) (\<lambda>m_trace.
     sbind (copy response_trace) (\<lambda>r_trace.
     (\<lambda>s. case whiteCalib_body E kw (heap s ! m_trace) (heap s ! r_trace) of
            (out, res) \<Rightarrow> (s\<lparr>stdout := stdout s @ out\<rparr>, res))))"

definition paz_error :: string where
  "paz_error = ''Error: No paz for deconvolution''"

text \<open>\<^verbatim>\<open>crossCalib\<close>, lines 85--105.\<close>

definition crossCalib :: "'p env \<Rightarrow> 'p kwargs \<Rightarrow> nat \<Rightarrow> nat \<Rightarrow> (complex list \<times> real list) prog" where
  "crossCalib E kw monitor_trace response_trace =
     sbind (copy monitor_trace) (\<lambda>in_trace.
     sbind (copy response_trace) (\<lambda>out_trace.
     sbind (case ffilter kw of
              Some fr \<Rightarrow> sbind (inplace (highpass E fr) in_trace)
                           (\<lambda>_. inplace (highpass E fr) out_trace)
            | None \<Rightarrow> sreturn ()) (\<lambda>_.
     sbind (if deconvolve kw = Some True then
              (case paz kw of
                 Some p \<Rightarrow> inplace (simulate E p) in_trace
               | None \<Rightarrow> print paz_error)
            else sreturn ()) (\<lambda>_.
     (case smooth kw of
        Some n \<Rightarrow> whiteCalib E (no_kwargs\<lparr>smooth := Some n\<rparr>) in_trace out_trace
      | None \<Rightarrow> whiteCalib E no_kwargs in_trace out_trace)))))"

text \<open>
  \<^verbatim>\<open>Hparameters\<close>, lines 107--149. \<^verbatim>\<open>a[i]\<close> raises IndexError out of range; the slice
  \<^verbatim>\<open>H[imin:inorm]\<close> of non-negative bounds is clipped to the array. The plotting branch
  (lines 134--147) only draws and does not touch what is returned. Where a divisor is
  zero numpy yields \<^verbatim>\<open>inf\<close> or \<^verbatim>\<open>nan\<close>, which no real number models.
\<close>

definition getitem :: "'a list \<Rightarrow> nat \<Rightarrow> error + 'a" where
  "getitem xs i = (if i < length xs then Inr (xs ! i) else Inl IndexError)"

definition Hparameters :: "complex list \<Rightarrow> real list \<Rightarrow> 'p kwargs \<Rightarrow> error + (real \<times> real \<times> real)" where
  "Hparameters H f kw =
     ebind (argmin (map (\<lambda>x. \<bar>x - (case fnorm kw of Some v \<Rightarrow> v | None \<Rightarrow> 1)\<bar>) f)) (\<lambda>inorm.
     ebind (argmin (map (\<lambda>x. \<bar>x - (case fmin kw of Some v \<Rightarrow> v | None \<Rightarrow> 1 / 1000)\<bar>) f)) (\<lambda>imin.
     ebind (argmin (map (\<lambda>z. \<bar>Re z\<bar>) (drop imin (take inorm H)))) (\<lambda>i.
     let indx = i + imin in
     ebind (getitem H inorm) (\<lambda>Hnorm.
     let Amp = map (\<lambda>z. cmod z / cmod Hnorm) H in
     ebind (getitem f indx) (\<lambda>fc.
     ebind (getitem Amp indx) (\<lambda>a.
     Inr (fc, 1 / (2 * a), cmod Hnorm)))))))"

section \<open>The properties in the specification's words\<close>

text \<open>
  The bin closest to a frequency \<open>v\<close>: no bin is nearer, and among equally near bins it
  is the first.
\<close>

definition closest_bin :: "real list \<Rightarrow> real \<Rightarrow> nat \<Rightarrow> bool" where
  "closest_bin f v i \<longleftrightarrow>
     i < length f \<and> (\<forall>j\<in>{0..<length f}. \<bar>f ! i - v\<bar> \<le> \<bar>f ! j - v\<bar>) \<and>
     (\<forall>j\<in>{0..<i}. \<bar>f ! i - v\<bar> < \<bar>f ! j - v\<bar>)"

text \<open>
  The index in the window \<open>[imin, inorm)\<close> where \<open>|Re H|\<close> is least, the first one among
  equals.
\<close>

definition min_re_in_window :: "complex list \<Rightarrow> nat \<Rightarrow> nat \<Rightarrow> nat \<Rightarrow> bool" where
  "min_re_in_window H imin inorm indx \<longleftrightarrow>
     imin \<le> indx \<and> indx < inorm \<and>
     (\<forall>j\<in>{imin..<inorm}. \<bar>Re (H ! indx)\<bar> \<le> \<bar>Re (H ! j)\<bar>) \<and>
     (\<forall>j\<in>{imin..<indx}. \<bar>Re (H ! indx)\<bar> < \<bar>Re (H ! j)\<bar>)"


section \<open>Example inputs\<close>

text \<open>
  An instance of the obspy capabilities for the examples: the filter flips the sign of
  the samples, deconvolution and smoothing leave their argument as it is.
\<close>

definition example_env :: "unit env" where
  "example_env = \<lparr>highpass = (\<lambda>fr t. Inr (t\<lparr>data := map uminus (data t)\<rparr>)),
                  simulate = (\<lambda>p t. Inr t),
                  smoother = (\<lambda>H n. Inr H)\<rparr>"

definition impulse :: "real \<Rightarrow> nat \<Rightarrow> real \<Rightarrow> trace" where
  "impulse a n rate = \<lparr>data = a # replicate n 0, sampling_rate = rate\<rparr>"

definition two_traces :: "trace \<Rightarrow> trace \<Rightarrow> state" where
  "two_traces t u = \<lparr>heap = [t, u], stdout = []\<rparr>"

definition filter_no_paz :: "unit kwargs" where
  "filter_no_paz = no_kwargs\<lparr>ffilter := Some 1, deconvolve := Some True\<rparr>"

definition axis5 :: "real list" where
  "axis5 = [0, 1 / 2, 1, - 1, - (1 / 2)]"

definition curve5 :: "complex list" where
  "curve5 = [2, \<i>, 3, 3, - \<i>]"

section \<open>Array operations\<close>

lemma ebind_Inr_iff: "ebind m k = Inr v \<longleftrightarrow> (\<exists>u. m = Inr u \<and> k u = Inr v)"
  by (cases m) (simp_all add: ebind_def)

lemma ebind_Inr [simp]: "ebind (Inr u) k = k u"
  by (simp add: ebind_def)

lemma ebind_Inl [simp]: "ebind (Inl e) k = Inl e"
  by (simp add: ebind_def)

lemma first_index_unique:
  "i < length xs \<Longrightarrow> P (xs ! i) \<Longrightarrow> (\<forall>j<i. \<not> P (xs ! j)) \<Longrightarrow> first_index P xs = i"
proof (induction xs arbitrary: i)
  case Nil
  then show ?case by simp
next
  case (Cons x xs)
  show ?case
  proof (cases i)
    case 0
    with Cons.prems show ?thesis by simp
  next
    case (Suc k)
    from Cons.prems Suc have "\<not> P x" by fastforce
    moreover have "first_index P xs = k"
    proof (rule Cons.IH)
      show "k < length xs" using Cons.prems Suc by simp
      show "P (xs ! k)" using Cons.prems Suc by simp
      show "\<forall>j<k. \<not> P (xs ! j)"
      proof (intro allI impI)
        fix j assume "j < k"
        then have "Suc j < i" using Suc by simp
        with Cons.prems(3) have "\<not> P ((x # xs) ! Suc j)" by blast
        then show "\<not> P (xs ! j)" by simp
      qed
    qed
    ultimately show ?thesis using Suc by simp
  qed
qed

lemma argmin_eqI:
  assumes "i < length xs" and "\<forall>j<length xs. xs ! i \<le> xs ! j" and "\<forall>j<i. xs ! i < xs ! j"
  shows "argmin xs = Inr i"
proof -
  from assms(1) have ne: "xs \<noteq> []" by auto
  have "Min (set xs) = xs ! i"
  proof (rule Min_eqI)
    show "finite (set xs)" by simp
    show "xs ! i \<in> set xs" using assms(1) by simp
    fix y assume "y \<in> set xs"
    then obtain j where "j < length xs" "y = xs ! j" by (auto simp: in_set_conv_nth)
    with assms(2) show "xs ! i \<le> y" by simp
  qed
  moreover have "first_index (\<lambda>x. x = xs ! i) xs = i"
    by (rule first_index_unique) (use assms in auto)
  ultimately show ?thesis using ne by (simp add: argmin_def)
qed

lemma pick_where: "pick xs (where_idx P xs) = Inr (filter P xs)"
proof -
  have a: "list_all (\<lambda>i. i < length xs) (where_idx P xs)"
    by (simp add: where_idx_def list_all_iff)
  have "map (\<lambda>i. xs ! i) (where_idx P xs) = filter P (map (\<lambda>i. xs ! i) [0..<length xs])"
    by (simp add: where_idx_def filter_map comp_def)
  also have "\<dots> = filter P xs" by (simp add: map_nth)
  finally show ?thesis using a by (simp add: pick_def)
qed

lemma delete_Inr: "delete xs i = Inr ys \<Longrightarrow> i < length xs \<and> ys = take i xs @ drop (Suc i) xs"
  by (auto simp: delete_def split: if_splits)

lemma subseq_drop_one: "subseq (take i xs @ drop (Suc i) xs) xs"
proof -
  have "subseq (drop (Suc i) xs) (drop i xs)"
  proof (cases "i < length xs")
    case True
    then have "drop i xs = xs ! i # drop (Suc i) xs" by (simp add: Cons_nth_drop_Suc)
    moreover have "subseq (drop (Suc i) xs) (xs ! i # drop (Suc i) xs)"
      by (rule list_emb_Cons) (rule subseq_order.order_refl)
    ultimately show ?thesis by simp
  next
    case False
    then show ?thesis by simp
  qed
  then have "subseq (take i xs @ drop (Suc i) xs) (take i xs @ drop i xs)"
    by (intro list_emb_append_mono subseq_order.order_refl)
  then show ?thesis by simp
qed

lemma sum_diff_self: "sum_list (map2 (\<lambda>x y. x - y) f f) = (0::real)"
  by (induction f) simp_all

lemma sum_list_all_zero:
  "(\<And>x. x \<in> set xs \<Longrightarrow> f x = (0::complex)) \<Longrightarrow> sum_list (map f xs) = 0"
  by (induction xs) simp_all

section \<open>Spectra and frequency axes\<close>

lemma np_fft_Inr: "np_fft a = Inr S \<Longrightarrow> length S = length a \<and> a \<noteq> []"
  by (auto simp: np_fft_def split: if_splits)

text \<open>The transform of an impulse is flat.\<close>

lemma np_fft_impulse: "np_fft (a # replicate n 0) = Inr (replicate (Suc n) (complex_of_real a))"
proof -
  have z: "(\<Sum>m\<leftarrow>[Suc 0..<Suc n]. complex_of_real ((a # replicate n 0) ! m) *
        cis (- (2 * pi * real m * real k / real (Suc n)))) = 0" for k
    by (rule sum_list_all_zero) (auto simp: nth_Cons')
  have "(\<Sum>m\<leftarrow>[0..<Suc n]. complex_of_real ((a # replicate n 0) ! m) *
        cis (- (2 * pi * real m * real k / real (Suc n)))) = complex_of_real a" for k
    unfolding upt_conv_Cons[OF zero_less_Suc] list.map sum_list.Cons z by simp
  then have "map (\<lambda>k. \<Sum>m\<leftarrow>[0..<Suc n]. complex_of_real ((a # replicate n 0) ! m) *
        cis (- (2 * pi * real m * real k / real (Suc n)))) [0..<Suc n] =
      replicate (Suc n) (complex_of_real a)"
    by (simp add: map_replicate_const del: upt_Suc)
  then show ?thesis by (simp add: np_fft_def del: upt_Suc replicate_Suc)
qed

lemma fftfreq_length:
  assumes "fftfreq n d = Inr f" and "0 < n"
  shows "length f = n"
proof -
  from assms(1) have "length f = (n - 1) div 2 + 1 + n div 2"
    by (auto simp: fftfreq_def split: if_splits)
  with assms(2) show ?thesis by presburger
qed

lemma spacing_Inr: "spacing t = Inr d \<longleftrightarrow> sampling_rate t \<noteq> 0 \<and> d = 1 / sampling_rate t"
  by (auto simp: spacing_def)

lemma spectra_Inr:
  assumes "spectra m r = Inr (f1, mS, f2, rS)"
  shows "np_fft (data m) = Inr mS" "np_fft (data r) = Inr rS"
    "sampling_rate m \<noteq> 0" "sampling_rate r \<noteq> 0"
    "fftfreq (length (data m)) (1 / sampling_rate m) = Inr f1"
    "fftfreq (length (data r)) (1 / sampling_rate r) = Inr f2"
    "length f1 = length mS" "length f2 = length rS"
proof -
  from assms obtain mS' rS' d1 f1' d2 f2' where
    a: "np_fft (data m) = Inr mS'" "np_fft (data r) = Inr rS'" "spacing m = Inr d1"
       "fftfreq (length mS') d1 = Inr f1'" "spacing r = Inr d2" "fftfreq (length rS') d2 = Inr f2'"
       "(f1', mS', f2', rS') = (f1, mS, f2, rS)"
    unfolding spectra_def ebind_Inr_iff by blast
  from a(7) have e: "f1' = f1" "mS' = mS" "f2' = f2" "rS' = rS" by simp_all
  from a(1,2) e show "np_fft (data m) = Inr mS" "np_fft (data r) = Inr rS" by simp_all
  from a(3,5) show "sampling_rate m \<noteq> 0" "sampling_rate r \<noteq> 0"
    by (simp_all add: spacing_Inr)
  have lm: "length mS = length (data m)" "data m \<noteq> []" using np_fft_Inr a(1) e by auto
  have lr: "length rS = length (data r)" "data r \<noteq> []" using np_fft_Inr a(2) e by auto
  from a(3,4) e lm show f1: "fftfreq (length (data m)) (1 / sampling_rate m) = Inr f1"
    by (simp add: spacing_Inr)
  from a(5,6) e lr show f2: "fftfreq (length (data r)) (1 / sampling_rate r) = Inr f2"
    by (simp add: spacing_Inr)
  from fftfreq_length[OF f1] lm show "length f1 = length mS" by simp
  from fftfreq_length[OF f2] lr show "length f2 = length rS" by simp
qed

section \<open>The aligner and whiteCalib\<close>

lemma align_same: "align f mS f rS = ([], Inr (f, mS, f, rS))"
  by (simp add: align_def sum_diff_self)

lemma whiteCalib_rawI:
  assumes "spectra m r = Inr (f1, mS, f2, rS)"
    and "align f1 mS f2 rS = (out, Inr (f1', mS', f2', rS'))"
    and "np_divide rS' mS' = res"
  shows "whiteCalib_raw m r = (out, ebind res (\<lambda>H. Inr (H, f1')))"
  using assms by (simp add: whiteCalib_raw_def)

lemma whiteCalib_raw_same_axes:
  assumes sp: "spectra m r = Inr (f1, mS, f1, rS)"
  shows "whiteCalib_raw m r = ([], Inr (map2 (\<lambda>x y. x / y) rS mS, f1))"
proof -
  have "length rS = length mS" using spectra_Inr(7,8)[OF sp] by simp
  then have "np_divide rS mS = Inr (map2 (\<lambda>x y. x / y) rS mS)"
    by (simp add: np_divide_def)
  from whiteCalib_rawI[OF sp align_same this] show ?thesis by simp
qed


lemma trim_pair_subseq:
  assumes "trim_pair f S = Inr (f', S')"
  shows "subseq f' f"
proof -
  from assms obtain i g j g' where
    d1: "delete f i = Inr g" and d2: "delete g j = Inr g'" and e: "g' = f'"
    unfolding trim_pair_def ebind_Inr_iff by auto
  from delete_Inr[OF d1] have "subseq g f" by (simp add: subseq_drop_one)
  moreover from delete_Inr[OF d2] have "subseq g' g" by (simp add: subseq_drop_one)
  ultimately show ?thesis using e by (blast intro: subseq_order.order_trans)
qed

lemma trim_subseq:
  assumes "trim f1 mS f2 rS = Inr (f1', mS', f2', rS')"
  shows "subseq f1' f1"
proof (cases "length f2 < length f1")
  case True
  with assms obtain T where "trim_pair f1 mS = Inr (f1', T)"
    unfolding trim_def by (auto simp: ebind_Inr_iff split: prod.splits)
  then show ?thesis by (rule trim_pair_subseq)
next
  case False
  with assms have "f1' = f1"
    unfolding trim_def by (auto simp: ebind_Inr_iff split: if_splits)
  then show ?thesis by simp
qed

lemma align_subseq:
  assumes "align f1 mS f2 rS = (out, Inr (f1', mS', f2', rS'))"
  shows "subseq f1' f1"
proof (cases "length f1 \<noteq> length f2 \<or> sum_list (map2 (\<lambda>x y. x - y) f1 f2) \<noteq> 0")
  case True
  with assms obtain P g T g2 T2 where
    "pick f1 (where_idx P f1) = Inr g"
    "trim g T g2 T2 = Inr (f1', mS', f2', rS')"
    unfolding align_def by (auto simp: ebind_Inr_iff Let_def)
  then have "g = filter P f1" "subseq f1' g"
    using trim_subseq by (simp_all add: pick_where)
  then show ?thesis using subseq_filter_left subseq_order.order_trans by blast
next
  case False
  with assms have "f1' = f1" unfolding align_def by auto
  then show ?thesis by simp
qed

lemma whiteCalib_body_axis:
  assumes "whiteCalib_body E kw m r = (out, Inr (H, f))"
  shows "\<exists>f1 mS f2 rS mS' f2' rS'.
           spectra m r = Inr (f1, mS, f2, rS) \<and>
           fftfreq (length (data m)) (1 / sampling_rate m) = Inr f1 \<and>
           align f1 mS f2 rS = (out, Inr (f, mS', f2', rS')) \<and> subseq f f1"
proof -
  from assms obtain H0 where raw: "whiteCalib_raw m r = (out, Inr (H0, f))"
    unfolding whiteCalib_body_def
    by (auto simp: ebind_Inr_iff split: prod.splits sum.splits)
  then obtain f1 mS f2 rS where sp: "spectra m r = Inr (f1, mS, f2, rS)"
    unfolding whiteCalib_raw_def by (auto split: sum.splits)
  with raw obtain mS' f2' rS' where al: "align f1 mS f2 rS = (out, Inr (f, mS', f2', rS'))"
    unfolding whiteCalib_raw_def
    by (auto simp: ebind_Inr_iff split: prod.splits sum.splits)
  then have "subseq f f1" by (rule align_subseq)
  with spectra_Inr(5)[OF sp] sp al show ?thesis by blast
qed

text \<open>The axes of 3, 8 and 16 samples that the examples use.\<close>

lemma fftfreq_3: "fftfreq 3 1 = Inr [0, 1 / 3, - (1 / 3)]"
  by (simp add: fftfreq_def upt_rec)

lemma fftfreq_3_fast: "fftfreq 3 (1 / 2) = Inr [0, 2 / 3, - (2 / 3)]"
  by (simp add: fftfreq_def upt_rec)

lemma fftfreq_8:
  "fftfreq 8 1 = Inr [0, 1 / 8, 1 / 4, 3 / 8, - (1 / 2), - (3 / 8), - (1 / 4), - (1 / 8)]"
  by (simp add: fftfreq_def upt_rec)

lemma fftfreq_16:
  "fftfreq 16 1 = Inr [0, 1 / 16, 1 / 8, 3 / 16, 1 / 4, 5 / 16, 3 / 8, 7 / 16, - (1 / 2),
     - (7 / 16), - (3 / 8), - (5 / 16), - (1 / 4), - (3 / 16), - (1 / 8), - (1 / 16)]"
  by (simp add: fftfreq_def upt_rec)

lemma spectra_impulse:
  assumes "rm \<noteq> 0" and "rr \<noteq> 0"
    and "fftfreq (Suc n) (1 / rm) = Inr f1" and "fftfreq (Suc k) (1 / rr) = Inr f2"
  shows "spectra (impulse a n rm) (impulse b k rr) =
           Inr (f1, replicate (Suc n) (complex_of_real a), f2, replicate (Suc k) (complex_of_real b))"
  using assms
  by (simp add: spectra_def impulse_def np_fft_impulse spacing_def del: replicate_Suc)

lemma raw_rates_1_2:
  "whiteCalib_raw (impulse 1 2 1) (impulse 2 2 2) = ([], Inr ([2, 2, 2], [0, 1 / 3, - (1 / 3)]))"
proof -
  have sp: "spectra (impulse 1 2 1) (impulse 2 2 2) =
      Inr ([0, 1 / 3, - (1 / 3)], replicate (Suc 2) (complex_of_real 1),
           [0, 2 / 3, - (2 / 3)], replicate (Suc 2) (complex_of_real 2))"
    by (rule spectra_impulse) (simp_all add: fftfreq_3 fftfreq_3_fast)
  have al: "align [0, 1 / 3, - (1 / 3)] (replicate (Suc 2) (complex_of_real 1))
      [0, 2 / 3, - (2 / 3)] (replicate (Suc 2) (complex_of_real 2)) =
      ([], Inr ([0, 1 / 3, - (1 / 3)], replicate (Suc 2) (complex_of_real 1),
                [0, 2 / 3, - (2 / 3)], replicate (Suc 2) (complex_of_real 2)))"
    by (simp add: align_def)
  have dv: "np_divide (replicate (Suc 2) (complex_of_real 2)) (replicate (Suc 2) (complex_of_real 1))
      = Inr [2, 2, 2]"
    by (simp add: np_divide_def numeral_2_eq_2)
  from whiteCalib_rawI[OF sp al dv] show ?thesis by simp
qed


text \<open>
  Claim C1. For every pair of traces the pair \<open>(H, f)\<close> that whiteCalib returns has
  \<open>len(H) = len(f)\<close>, and the aligned arrays have equal length. The code breaks both.
  A monitor trace of 3 samples and a response trace of 16 samples, both at 1 Hz, leave
  one monitor bin and nine response bins; the division broadcasts the single bin, and
  the unsmoothed pair has nine values of \<open>H\<close> for one frequency. With 8 and 16 samples
  the aligned spectra have 7 and 13 bins and the division raises ValueError.
\<close>

theorem whiteCalib_raw_unequal_lengths:
  "whiteCalib_raw (impulse 1 2 1) (impulse 2 15 1) = ([mixing_warning], Inr (replicate 9 2, [0])) \<and>
   whiteCalib_raw (impulse 1 7 1) (impulse 2 15 1) = ([mixing_warning], Inl ValueError)"
proof
  have sp: "spectra (impulse 1 2 1) (impulse 2 15 1) =
      Inr ([0, 1 / 3, - (1 / 3)], replicate (Suc 2) (complex_of_real 1),
           [0, 1 / 16, 1 / 8, 3 / 16, 1 / 4, 5 / 16, 3 / 8, 7 / 16, - (1 / 2),
            - (7 / 16), - (3 / 8), - (5 / 16), - (1 / 4), - (3 / 16), - (1 / 8), - (1 / 16)],
           replicate (Suc 15) (complex_of_real 2))"
    by (rule spectra_impulse) (simp_all add: fftfreq_3 fftfreq_16)
  have al: "align [0, 1 / 3, - (1 / 3)] (replicate (Suc 2) (complex_of_real 1))
        [0, 1 / 16, 1 / 8, 3 / 16, 1 / 4, 5 / 16, 3 / 8, 7 / 16, - (1 / 2),
         - (7 / 16), - (3 / 8), - (5 / 16), - (1 / 4), - (3 / 16), - (1 / 8), - (1 / 16)]
        (replicate (Suc 15) (complex_of_real 2)) =
      ([mixing_warning],
       Inr ([0], [1], [0, 1 / 16, 1 / 8, 3 / 16, 1 / 4, - (1 / 4), - (3 / 16), - (1 / 8), - (1 / 16)],
            replicate 9 2))"
    by code_simp
  have dv: "np_divide (replicate 9 2) [1] = Inr (replicate 9 2)"
    by code_simp
  from whiteCalib_rawI[OF sp al dv]
  show "whiteCalib_raw (impulse 1 2 1) (impulse 2 15 1) =
      ([mixing_warning], Inr (replicate 9 2, [0]))" by simp
next
  have sp: "spectra (impulse 1 7 1) (impulse 2 15 1) =
      Inr ([0, 1 / 8, 1 / 4, 3 / 8, - (1 / 2), - (3 / 8), - (1 / 4), - (1 / 8)],
           replicate (Suc 7) (complex_of_real 1),
           [0, 1 / 16, 1 / 8, 3 / 16, 1 / 4, 5 / 16, 3 / 8, 7 / 16, - (1 / 2),
            - (7 / 16), - (3 / 8), - (5 / 16), - (1 / 4), - (3 / 16), - (1 / 8), - (1 / 16)],
           replicate (Suc 15) (complex_of_real 2))"
    by (rule spectra_impulse) (simp_all add: fftfreq_8 fftfreq_16)
  have al: "align [0, 1 / 8, 1 / 4, 3 / 8, - (1 / 2), - (3 / 8), - (1 / 4), - (1 / 8)]
        (replicate (Suc 7) (complex_of_real 1))
        [0, 1 / 16, 1 / 8, 3 / 16, 1 / 4, 5 / 16, 3 / 8, 7 / 16, - (1 / 2),
         - (7 / 16), - (3 / 8), - (5 / 16), - (1 / 4), - (3 / 16), - (1 / 8), - (1 / 16)]
        (replicate (Suc 15) (complex_of_real 2)) =
      ([mixing_warning],
       Inr ([0, 1 / 8, 1 / 4, 3 / 8, - (3 / 8), - (1 / 4), - (1 / 8)], replicate 7 1,
            [0, 1 / 16, 1 / 8, 3 / 16, 1 / 4, 5 / 16, 3 / 8, - (3 / 8), - (5 / 16),
             - (1 / 4), - (3 / 16), - (1 / 8), - (1 / 16)],
            replicate 13 2))"
    by code_simp
  have dv: "np_divide (replicate 13 2) (replicate 7 1) = Inl ValueError"
    by code_simp
  from whiteCalib_rawI[OF sp al dv]
  show "whiteCalib_raw (impulse 1 7 1) (impulse 2 15 1) = ([mixing_warning], Inl ValueError)"
    by simp
qed

text \<open>
  Claim C3. Two traces of equal length and sampling rate whose spectra satisfy
  \<open>responseSpectrum = k * monitorSpectrum\<close> for a real \<open>k\<close>: whiteCalib takes the
  path without reconciliation, and the unsmoothed transfer function is \<open>k\<close> at every bin
  where the monitor spectrum is not zero.
\<close>

theorem division_by_multiple:
  assumes len: "length (data r) = length (data m)"
    and rate: "sampling_rate r = sampling_rate m" and nz: "sampling_rate m \<noteq> 0"
    and fm: "np_fft (data m) = Inr mS"
    and fr: "np_fft (data r) = Inr (map (\<lambda>z. complex_of_real k * z) mS)"
  shows "\<exists>H f. whiteCalib_raw m r = ([], Inr (H, f)) \<and> length H = length mS \<and>
           length f = length mS \<and> (\<forall>i<length mS. mS ! i \<noteq> 0 \<longrightarrow> H ! i = complex_of_real k)"
proof -
  define rS where "rS = map (\<lambda>z. complex_of_real k * z) mS"
  from np_fft_Inr[OF fm] have lm: "length mS = length (data m)" "data m \<noteq> []" by simp_all
  define f1 where "f1 = map (\<lambda>j. real_of_int j * (1 / (real (length mS) * (1 / sampling_rate m))))
     (map int [0..<(length mS - 1) div 2 + 1] @
      map (\<lambda>j. int j - int (length mS div 2)) [0..<length mS div 2])"
  have ff: "fftfreq (length mS) (1 / sampling_rate m) = Inr f1"
    using lm nz by (simp add: fftfreq_def f1_def)
  have sp: "spectra m r = Inr (f1, mS, f1, rS)"
    using fm fr nz rate ff by (simp add: spectra_def spacing_def rS_def)
  have lf: "length f1 = length mS" using spectra_Inr(7)[OF sp] .
  have raw: "whiteCalib_raw m r = ([], Inr (map2 (\<lambda>x y. x / y) rS mS, f1))"
    by (rule whiteCalib_raw_same_axes[OF sp])
  have "\<forall>i<length mS. mS ! i \<noteq> 0 \<longrightarrow> map2 (\<lambda>x y. x / y) rS mS ! i = complex_of_real k"
    by (simp add: rS_def)
  then show ?thesis using raw lf by (simp add: rS_def)
qed

text \<open>An impulse of height 1 and one of height 3, two samples each at 1 Hz: \<open>k = 3\<close>.\<close>

theorem division_by_multiple_witness:
  "\<exists>H f. whiteCalib_raw (impulse 1 1 1) (impulse 3 1 1) = ([], Inr (H, f)) \<and>
     H ! 0 = 3 \<and> H ! 1 = 3"
proof -
  have a: "np_fft (data (impulse 1 1 1)) = Inr [1, 1]"
    using np_fft_impulse[of 1 1] by (simp add: impulse_def)
  have b: "np_fft (data (impulse 3 1 1)) = Inr (map (\<lambda>z. complex_of_real 3 * z) [1, 1])"
    using np_fft_impulse[of 3 1] by (simp add: impulse_def)
  have c: "length (data (impulse 3 1 1)) = length (data (impulse 1 1 1))"
    "sampling_rate (impulse 3 1 1) = sampling_rate (impulse 1 1 1)"
    "sampling_rate (impulse 1 1 1) \<noteq> 0"
    by (simp_all add: impulse_def)
  from division_by_multiple[OF c a b] obtain H f where
    h: "whiteCalib_raw (impulse 1 1 1) (impulse 3 1 1) = ([], Inr (H, f))"
       "\<forall>i<length [1, 1 :: complex]. [1, 1 :: complex] ! i \<noteq> 0 \<longrightarrow> H ! i = complex_of_real 3"
    by blast
  from h(2) have "H ! 0 = 3" "H ! 1 = 3" by simp_all
  with h(1) show ?thesis by blast
qed

text \<open>
  Claim C4. After the \<open>|f| < fmax\<close> filter, arrays of different length lose pairs of
  elements of the longer one (its maximum, then its minimum, the spectrum in lock-step)
  again and again until the lengths match, whatever the difference. The code breaks
  this: lines 60--73 are an \<^verbatim>\<open>if\<close>/\<^verbatim>\<open>elif\<close> that drops one pair and stops, although
  the division that follows needs equal lengths. Axes of 8 and 16 bins at 1 Hz are 7
  and 15 bins long after the filter; the aligner takes one pair off the longer one and
  is done with 7 and 13 bins.
\<close>

theorem align_stops_after_one_pair:
  "fftfreq 8 1 = Inr [0, 1 / 8, 1 / 4, 3 / 8, - (1 / 2), - (3 / 8), - (1 / 4), - (1 / 8)] \<and>
   fftfreq 16 1 = Inr [0, 1 / 16, 1 / 8, 3 / 16, 1 / 4, 5 / 16, 3 / 8, 7 / 16, - (1 / 2),
     - (7 / 16), - (3 / 8), - (5 / 16), - (1 / 4), - (3 / 16), - (1 / 8), - (1 / 16)] \<and>
   align [0, 1 / 8, 1 / 4, 3 / 8, - (1 / 2), - (3 / 8), - (1 / 4), - (1 / 8)]
     [10, 11, 12, 13, 14, 15, 16, 17 :: complex]
     [0, 1 / 16, 1 / 8, 3 / 16, 1 / 4, 5 / 16, 3 / 8, 7 / 16, - (1 / 2),
      - (7 / 16), - (3 / 8), - (5 / 16), - (1 / 4), - (3 / 16), - (1 / 8), - (1 / 16)]
     [20, 21, 22, 23, 24, 25, 26, 27, 28, 29, 30, 31, 32, 33, 34, 35 :: complex] =
   ([mixing_warning],
    Inr ([0, 1 / 8, 1 / 4, 3 / 8, - (3 / 8), - (1 / 4), - (1 / 8)],
         [10, 11, 12, 13, 15, 16, 17],
         [0, 1 / 16, 1 / 8, 3 / 16, 1 / 4, 5 / 16, 3 / 8, - (3 / 8), - (5 / 16),
          - (1 / 4), - (3 / 16), - (1 / 8), - (1 / 16)],
         [20, 21, 22, 23, 24, 25, 26, 30, 31, 32, 33, 34, 35])) \<and>
   length [0, 1 / 8, 1 / 4, 3 / 8, - (3 / 8), - (1 / 4), - (1 / 8 :: real)] \<noteq>
   length [0, 1 / 16, 1 / 8, 3 / 16, 1 / 4, 5 / 16, 3 / 8, - (3 / 8), - (5 / 16),
          - (1 / 4), - (3 / 16), - (1 / 8), - (1 / 16 :: real)]"
proof (intro conjI)
  show "align [0, 1 / 8, 1 / 4, 3 / 8, - (1 / 2), - (3 / 8), - (1 / 4), - (1 / 8)]
     [10, 11, 12, 13, 14, 15, 16, 17 :: complex]
     [0, 1 / 16, 1 / 8, 3 / 16, 1 / 4, 5 / 16, 3 / 8, 7 / 16, - (1 / 2),
      - (7 / 16), - (3 / 8), - (5 / 16), - (1 / 4), - (3 / 16), - (1 / 8), - (1 / 16)]
     [20, 21, 22, 23, 24, 25, 26, 27, 28, 29, 30, 31, 32, 33, 34, 35 :: complex] =
   ([mixing_warning],
    Inr ([0, 1 / 8, 1 / 4, 3 / 8, - (3 / 8), - (1 / 4), - (1 / 8)],
         [10, 11, 12, 13, 15, 16, 17],
         [0, 1 / 16, 1 / 8, 3 / 16, 1 / 4, 5 / 16, 3 / 8, - (3 / 8), - (5 / 16),
          - (1 / 4), - (3 / 16), - (1 / 8), - (1 / 16)],
         [20, 21, 22, 23, 24, 25, 26, 30, 31, 32, 33, 34, 35]))"
    by code_simp
qed (simp_all add: fftfreq_8 fftfreq_16)

text \<open>The lengths the aligner leaves on that input: 7 monitor bins, 13 response bins.\<close>

theorem align_stops_after_one_pair_witness:
  "(case snd (align [0, 1 / 8, 1 / 4, 3 / 8, - (1 / 2), - (3 / 8), - (1 / 4), - (1 / 8)]
       [10, 11, 12, 13, 14, 15, 16, 17 :: complex]
       [0, 1 / 16, 1 / 8, 3 / 16, 1 / 4, 5 / 16, 3 / 8, 7 / 16, - (1 / 2),
        - (7 / 16), - (3 / 8), - (5 / 16), - (1 / 4), - (3 / 16), - (1 / 8), - (1 / 16)]
       [20, 21, 22, 23, 24, 25, 26, 27, 28, 29, 30, 31, 32, 33, 34, 35 :: complex]) of
      Inl e \<Rightarrow> None
    | Inr (f1, mSpectre, f2, rSpectre) \<Rightarrow> Some (length f1, length f2)) = Some (7, 13)"
  using align_stops_after_one_pair by simp

text \<open>
  Claim C6. Two frequency axes of equal length that agree at every index: the aligner
  prints nothing and returns the four arrays as they are, and whiteCalib returns the
  smoothed elementwise quotient of the untouched spectra with the untouched axis.
\<close>

theorem whiteCalib_identical_axes:
  assumes sp: "spectra m_trace r_trace = Inr (f1, mSpectre, f2, rSpectre)"
    and len: "length f1 = length f2"
    and same: "\<forall>i<length f1. f1 ! i = f2 ! i"
  shows "align f1 mSpectre f2 rSpectre = ([], Inr (f1, mSpectre, f2, rSpectre)) \<and>
         whiteCalib_body E kw m_trace r_trace =
           ([], ebind (smoother E (map2 (\<lambda>x y. x / y) rSpectre mSpectre)
                        (case smooth kw of Some n \<Rightarrow> n | None \<Rightarrow> int (length f1 div 10000)))
                  (\<lambda>H. Inr (H, f1)))"
proof -
  from len same have eq: "f2 = f1" by (simp add: list_eq_iff_nth_eq)
  have al: "align f1 mSpectre f2 rSpectre = ([], Inr (f1, mSpectre, f2, rSpectre))"
    unfolding eq by (rule align_same)
  from sp have "whiteCalib_raw m_trace r_trace =
      ([], Inr (map2 (\<lambda>x y. x / y) rSpectre mSpectre, f1))"
    unfolding eq by (rule whiteCalib_raw_same_axes)
  then show ?thesis using al by (simp add: whiteCalib_body_def)
qed

theorem whiteCalib_identical_axes_witness:
  "align [0, - (1 / 2)] [1, 1 :: complex] [0, - (1 / 2)] [3, 3 :: complex] =
     ([], Inr ([0, - (1 / 2)], [1, 1], [0, - (1 / 2)], [3, 3])) \<and>
   whiteCalib_body example_env no_kwargs (impulse 1 1 1) (impulse 3 1 1) =
     ([], Inr ([3, 3], [0, - (1 / 2)]))"
proof -
  have sp: "spectra (impulse 1 1 1) (impulse 3 1 1) =
      Inr ([0, - (1 / 2)], replicate (Suc 1) (complex_of_real 1),
           [0, - (1 / 2)], replicate (Suc 1) (complex_of_real 3))"
    by (rule spectra_impulse) (simp_all add: fftfreq_def upt_rec)
  from whiteCalib_identical_axes[OF sp, of example_env no_kwargs] show ?thesis
    by (simp add: example_env_def no_kwargs_def)
qed

text \<open>
  Claim C7. Two axes of equal length with some differing elements take the mismatch
  path. The code tests the sum of the differences, not the differences: the axes of
  3 samples at 1 Hz and of 3 samples at 2 Hz differ at two indices, their differences
  add up to zero, and whiteCalib prints no warning and trims nothing.
\<close>

theorem zero_sum_skips_reconciliation:
  "fftfreq 3 1 = Inr [0, 1 / 3, - (1 / 3)] \<and> fftfreq 3 (1 / 2) = Inr [0, 2 / 3, - (2 / 3)] \<and>
   whiteCalib_raw (impulse 1 2 1) (impulse 2 2 2) = ([], Inr ([2, 2, 2], [0, 1 / 3, - (1 / 3)]))"
  using fftfreq_3 fftfreq_3_fast raw_rates_1_2 by simp

section \<open>Trace objects: copies, crossCalib\<close>

lemma whiteCalib_run:
  assumes "m < length (heap s)" and "r < length (heap s)"
  shows "whiteCalib E kw m r s =
           (s\<lparr>heap := heap s @ [heap s ! m, heap s ! r],
              stdout := stdout s @ fst (whiteCalib_body E kw (heap s ! m) (heap s ! r))\<rparr>,
            snd (whiteCalib_body E kw (heap s ! m) (heap s ! r)))"
  using assms
  by (simp add: whiteCalib_def sbind_def copy_def nth_append split: prod.splits)

lemma whiteCalib_frame:
  "take (length (heap s)) (heap (fst (whiteCalib E kw m r s))) = heap s"
  by (simp add: whiteCalib_def sbind_def copy_def split: prod.splits)

lemma crossCalib_frame:
  "take (length (heap s)) (heap (fst (crossCalib E kw m r s))) = heap s"
  by (auto simp: crossCalib_def whiteCalib_def sbind_def copy_def inplace_def print_def sreturn_def
      split: option.splits sum.splits prod.splits if_splits)


lemma body_rates_1_2:
  "whiteCalib_body example_env kw (impulse 1 2 1) (impulse 2 2 2) =
     ([], Inr ([2, 2, 2], [0, 1 / 3, - (1 / 3)]))"
  unfolding whiteCalib_body_def raw_rates_1_2 by (simp add: example_env_def)




text \<open>
  Claim C8. When \<^verbatim>\<open>whiteCalib\<close> or \<^verbatim>\<open>crossCalib\<close> is done, returning or raising, the
  caller's monitor and response trace objects hold what they held at the call: the
  filter and the deconvolution change only the copies made at entry.
\<close>

theorem traces_unchanged:
  assumes "m < length (heap s)" and "r < length (heap s)"
  shows "heap (fst (whiteCalib E kw m r s)) ! m = heap s ! m \<and>
         heap (fst (whiteCalib E kw m r s)) ! r = heap s ! r \<and>
         heap (fst (crossCalib E kw m r s)) ! m = heap s ! m \<and>
         heap (fst (crossCalib E kw m r s)) ! r = heap s ! r"
proof -
  have "\<And>h i. take (length (heap s)) h = heap s \<Longrightarrow> i < length (heap s) \<Longrightarrow> h ! i = heap s ! i"
    by (metis nth_take)
  then show ?thesis using assms whiteCalib_frame crossCalib_frame by blast
qed

text \<open>With the sign-flipping filter the copies change and the caller's traces do not.\<close>

theorem traces_unchanged_witness:
  "heap (fst (whiteCalib example_env filter_no_paz 0 1
      (two_traces (impulse 1 1 1) (impulse 3 1 1)))) ! 0 = impulse 1 1 1 \<and>
   heap (fst (whiteCalib example_env filter_no_paz 0 1
      (two_traces (impulse 1 1 1) (impulse 3 1 1)))) ! 1 = impulse 3 1 1 \<and>
   heap (fst (crossCalib example_env filter_no_paz 0 1
      (two_traces (impulse 1 1 1) (impulse 3 1 1)))) ! 0 = impulse 1 1 1 \<and>
   heap (fst (crossCalib example_env filter_no_paz 0 1
      (two_traces (impulse 1 1 1) (impulse 3 1 1)))) ! 1 = impulse 3 1 1"
  using traces_unchanged[of 0 "two_traces (impulse 1 1 1) (impulse 3 1 1)" 1
      example_env filter_no_paz]
  by (simp add: two_traces_def)

text \<open>
  Claim C10. The frequency axis that \<^verbatim>\<open>whiteCalib\<close> returns is the monitor side of the
  aligner's output: the axis derived from the monitor trace, possibly with bins
  removed. The axis of the response trace is never the one returned.
\<close>

theorem whiteCalib_returns_monitor_axis:
  assumes m: "m < length (heap s)" and r: "r < length (heap s)"
    and ret: "snd (whiteCalib E kw m r s) = Inr (H, f)"
  shows "\<exists>f1 mS f2 rS out mS' f2' rS'.
           spectra (heap s ! m) (heap s ! r) = Inr (f1, mS, f2, rS) \<and>
           fftfreq (length (data (heap s ! m))) (1 / sampling_rate (heap s ! m)) = Inr f1 \<and>
           align f1 mS f2 rS = (out, Inr (f, mS', f2', rS')) \<and> subseq f f1"
proof -
  from ret have "snd (whiteCalib_body E kw (heap s ! m) (heap s ! r)) = Inr (H, f)"
    by (simp add: whiteCalib_run[OF m r])
  then have "whiteCalib_body E kw (heap s ! m) (heap s ! r) =
      (fst (whiteCalib_body E kw (heap s ! m) (heap s ! r)), Inr (H, f))"
    by (simp add: prod_eq_iff)
  from whiteCalib_body_axis[OF this] show ?thesis by blast
qed

text \<open>
  Three samples at 1 Hz against three samples at 2 Hz: the axis returned is the
  monitor's \<open>[0, 1/3, -1/3]\<close>, not the response's \<open>[0, 2/3, -2/3]\<close>.
\<close>

theorem whiteCalib_returns_monitor_axis_witness:
  "snd (whiteCalib example_env no_kwargs 0 1 (two_traces (impulse 1 2 1) (impulse 2 2 2))) =
     Inr ([2, 2, 2], [0, 1 / 3, - (1 / 3)]) \<and>
   (\<exists>f1 mS f2 rS out mS' f2' rS'.
      spectra (impulse 1 2 1) (impulse 2 2 2) = Inr (f1, mS, f2, rS) \<and>
      fftfreq 3 1 = Inr f1 \<and>
      align f1 mS f2 rS = (out, Inr ([0, 1 / 3, - (1 / 3)], mS', f2', rS')) \<and>
      subseq [0, 1 / 3, - (1 / 3)] f1)"
proof -
  let ?s = "two_traces (impulse 1 2 1) (impulse 2 2 2)"
  have h: "0 < length (heap ?s)" "1 < length (heap ?s)"
    by (simp_all add: two_traces_def)
  have v: "heap ?s ! 0 = impulse 1 2 1" "heap ?s ! 1 = impulse 2 2 2"
    by (simp_all add: two_traces_def)
  have ret: "snd (whiteCalib example_env no_kwargs 0 1 ?s) = Inr ([2, 2, 2], [0, 1 / 3, - (1 / 3)])"
    unfolding whiteCalib_run[OF h] v by (simp add: body_rates_1_2)
  have d: "length (data (impulse 1 2 1)) = 3" "1 / sampling_rate (impulse 1 2 1) = 1"
    by (simp_all add: impulse_def)
  from whiteCalib_returns_monitor_axis[OF h ret] ret show ?thesis
    unfolding v d by blast
qed

section \<open>Hparameters\<close>

lemma closest_bin_argmin:
  assumes "closest_bin f v i"
  shows "argmin (map (\<lambda>x. \<bar>x - v\<bar>) f) = Inr i"
  by (rule argmin_eqI) (use assms in \<open>auto simp: closest_bin_def\<close>)

lemma window_argmin:
  assumes "min_re_in_window H imin inorm indx" and "inorm \<le> length H"
  shows "argmin (map (\<lambda>z. \<bar>Re z\<bar>) (drop imin (take inorm H))) = Inr (indx - imin)"
proof (rule argmin_eqI)
  from assms show "indx - imin < length (map (\<lambda>z. \<bar>Re z\<bar>) (drop imin (take inorm H)))"
    by (auto simp: min_re_in_window_def)
  from assms show "\<forall>j<length (map (\<lambda>z. \<bar>Re z\<bar>) (drop imin (take inorm H))).
       map (\<lambda>z. \<bar>Re z\<bar>) (drop imin (take inorm H)) ! (indx - imin)
       \<le> map (\<lambda>z. \<bar>Re z\<bar>) (drop imin (take inorm H)) ! j"
    by (auto simp: min_re_in_window_def)
  from assms show "\<forall>j<indx - imin.
       map (\<lambda>z. \<bar>Re z\<bar>) (drop imin (take inorm H)) ! (indx - imin)
       < map (\<lambda>z. \<bar>Re z\<bar>) (drop imin (take inorm H)) ! j"
    by (auto simp: min_re_in_window_def)
qed

lemma axis5_bins:
  "closest_bin axis5 1 2" "closest_bin axis5 (1 / 1000) 0" "closest_bin axis5 2 2"
  by (simp_all add: closest_bin_def axis5_def nth_Cons' Ball_def)

text \<open>
  Claim C2. For a transfer function \<open>(H, f)\<close> of equal lengths, with \<open>inorm\<close> the bin
  closest to \<^verbatim>\<open>fnorm\<close> (default 1 Hz), \<open>imin\<close> the bin closest to \<^verbatim>\<open>fmin\<close> (default
  0.001 Hz) and \<open>indx\<close> the index of least \<open>|Re H|\<close> in \<open>[imin, inorm)\<close>,
  \<^verbatim>\<open>Hparameters\<close> returns \<open>(f[indx], 1/(2*Amp[indx]), |H[inorm]|)\<close> with
  \<open>Amp = |H|/|H[inorm]|\<close>. The two moduli that are divided by are taken non-zero, where
  the reals model what numpy computes.
\<close>

theorem Hparameters_triple:
  assumes len: "length H = length f"
    and cn: "closest_bin f (case fnorm kw of Some v \<Rightarrow> v | None \<Rightarrow> 1) inorm"
    and cm: "closest_bin f (case fmin kw of Some v \<Rightarrow> v | None \<Rightarrow> 1 / 1000) imin"
    and win: "min_re_in_window H imin inorm indx"
    and nz: "H ! inorm \<noteq> 0" "H ! indx \<noteq> 0"
  shows "Hparameters H f kw =
           Inr (f ! indx, 1 / (2 * (cmod (H ! indx) / cmod (H ! inorm))), cmod (H ! inorm))"
proof -
  from cn have n: "inorm < length f" by (simp add: closest_bin_def)
  from win have i: "imin \<le> indx" "indx < inorm" by (simp_all add: min_re_in_window_def)
  have w: "argmin (map (\<lambda>z. \<bar>Re z\<bar>) (drop imin (take inorm H))) = Inr (indx - imin)"
    by (rule window_argmin[OF win]) (use n len in simp)
  show ?thesis
    using n i len
    by (simp add: Hparameters_def getitem_def
        closest_bin_argmin[OF cn] closest_bin_argmin[OF cm] w)
qed

text \<open>
  Five bins at 0.5 Hz spacing with the default options: \<open>inorm = 2\<close>, \<open>imin = 0\<close>, the
  real part vanishes at index 1, and the triple is \<open>(0.5, 1.5, 3)\<close>.
\<close>

theorem Hparameters_triple_witness:
  "Hparameters curve5 axis5 (no_kwargs :: unit kwargs) = Inr (1 / 2, 3 / 2, 3)"
proof -
  have a: "closest_bin axis5 (case fnorm (no_kwargs :: unit kwargs) of Some v \<Rightarrow> v | None \<Rightarrow> 1) 2"
    using axis5_bins(1) by (simp add: no_kwargs_def)
  have b: "closest_bin axis5 (case fmin (no_kwargs :: unit kwargs) of Some v \<Rightarrow> v | None \<Rightarrow> 1 / 1000) 0"
    using axis5_bins(2) by (simp add: no_kwargs_def)
  have c: "min_re_in_window curve5 0 2 1"
    by (simp add: min_re_in_window_def curve5_def nth_Cons' Ball_def)
  have d: "length curve5 = length axis5" "curve5 ! 2 \<noteq> 0" "curve5 ! 1 \<noteq> 0"
    by (simp_all add: curve5_def axis5_def)
  from Hparameters_triple[OF d(1) a b c d(2,3)] show ?thesis
    by (simp add: curve5_def axis5_def)
qed

text \<open>
  Claim C9. When the bin closest to \<^verbatim>\<open>fmin\<close> is at or after the bin closest to
  \<^verbatim>\<open>fnorm\<close>, the slice \<^verbatim>\<open>H[imin:inorm]\<close> is empty and \<^verbatim>\<open>Hparameters\<close> fails with the
  ValueError of \<^verbatim>\<open>argmin\<close> on an empty array; no triple is returned.
\<close>

theorem Hparameters_empty_window:
  assumes cn: "closest_bin f (case fnorm kw of Some v \<Rightarrow> v | None \<Rightarrow> 1) inorm"
    and cm: "closest_bin f (case fmin kw of Some v \<Rightarrow> v | None \<Rightarrow> 1 / 1000) imin"
    and deg: "inorm \<le> imin"
  shows "Hparameters H f kw = Inl ValueError"
proof -
  from deg have e: "argmin (map (\<lambda>z. \<bar>Re z\<bar>) (drop imin (take inorm H))) = Inl ValueError"
    by (simp add: argmin_def)
  show ?thesis
    by (simp add: Hparameters_def e closest_bin_argmin[OF cn] closest_bin_argmin[OF cm])
qed

text \<open>With \<^verbatim>\<open>fmin=2\<close> both bins are index 2 and the window is empty.\<close>

theorem Hparameters_empty_window_witness:
  "Hparameters curve5 axis5 ((no_kwargs :: unit kwargs)\<lparr>fmin := Some 2\<rparr>) = Inl ValueError"
proof -
  have a: "closest_bin axis5
      (case fnorm ((no_kwargs :: unit kwargs)\<lparr>fmin := Some 2\<rparr>) of Some v \<Rightarrow> v | None \<Rightarrow> 1) 2"
    using axis5_bins(1) by (simp add: no_kwargs_def)
  have b: "closest_bin axis5
      (case fmin ((no_kwargs :: unit kwargs)\<lparr>fmin := Some 2\<rparr>) of Some v \<Rightarrow> v | None \<Rightarrow> 1 / 1000) 2"
    using axis5_bins(3) by (simp add: no_kwargs_def)
  from Hparameters_empty_window[OF a b] show ?thesis by simp
qed

end
